theory Spec2Isabelle
  imports Complex_Main "HOL-Library.Word"
begin

section \<open>Python values, exceptions and the outside world\<close>

text \<open>
  The client of \<^verbatim>\<open>examples/client.py\<close> is glue between a caller, an HTTP session and
  the clock. The values it handles are decoded JSON: Python's \<^verbatim>\<open>None\<close>, booleans,
  integers, floats (kept as the 64 bits of the double: the client never computes with
  them), strings, lists and dictionaries. A dictionary is an association list read with
  \<^const>\<open>map_of\<close>; the order of the pairs is the insertion order.
\<close>

datatype json =
    JNull
  | JBool bool
  | JInt int
  | JFloat "64 word"
  | JStr string
  | JArr "json list"
  | JObj "(string \<times> json) list"

text \<open>
  Every way the client's code can raise. \<open>RequestException\<close> is what
  \<^verbatim>\<open>session.get\<close>/\<^verbatim>\<open>session.post\<close> raise themselves (no connection, a
  transport timeout), \<open>HTTPError\<close> is what \<^verbatim>\<open>raise_for_status\<close> raises, and
  \<open>JSONDecodeError\<close> what \<^verbatim>\<open>response.json()\<close> raises on a body that is not JSON.
\<close>

datatype exn =
    RequestException string
  | HTTPError nat
  | JSONDecodeError
  | KeyError string
  | TypeError
  | AttributeError
  | ValueError
  | OverflowError
  | RuntimeError string
  | TimeoutError string

record ScrapeRequest =
  city :: string
  state :: string
  filters :: "(string \<times> json) list option"
  max_pages :: int

text \<open>
  Python does not check the annotations of the dataclass: each field of a
  \<open>JobStatus\<close> holds whatever JSON value the server sent.
\<close>

record JobStatus =
  job_id :: json
  status :: json
  progress :: json
  created_at :: json
  updated_at :: json
  completed_at :: json
  error :: json

datatype http_method = GET | POST

record http_request =
  verb :: http_method
  url :: string
  headers :: "(string \<times> string) list"
  json_body :: "json option"

text \<open>
  What one HTTP request comes to: the session raises, or a response arrives with a
  status code and a body that decodes as JSON (\<open>Some\<close>) or does not (\<open>None\<close>).
\<close>

datatype http_outcome = ConnFail string | Response nat "json option"

record ApartmentScraperClient =
  base_url :: string
  api_key :: "string option"
  session_headers :: "(string \<times> string) list"

text \<open>
  The world outside the client. The server and the clock are scripts: \<open>replies w n\<close>
  is the outcome of the \<open>n\<close>-th request ever sent and \<open>clock w n\<close> the value of the
  \<open>n\<close>-th call of \<^verbatim>\<open>time.time()\<close> (seconds, as a rational: the rounding of the
  float subtraction is not modelled). \<open>repr_of\<close> is the text Python's \<^verbatim>\<open>str\<close> gives
  for a float, a list or a dictionary, taken from the runtime. The other fields log the
  client's effects: the requests sent, the number of clock readings, the sleeps and the
  lines printed, oldest first.
\<close>

record world =
  replies :: "nat \<Rightarrow> http_outcome"
  clock :: "nat \<Rightarrow> rat"
  repr_of :: "json \<Rightarrow> string"
  sent :: "http_request list"
  reads :: nat
  slept :: "int list"
  printed :: "string list"

subsection \<open>Built-ins\<close>

fun decimal :: "nat \<Rightarrow> string" where
  "decimal n =
     (if n < 10 then [''0123456789'' ! n]
      else decimal (n div 10) @ [''0123456789'' ! (n mod 10)])"

declare decimal.simps [simp del]

text \<open>
  CPython converts an integer to text only up to 4300 decimal digits (the default of
  \<^verbatim>\<open>sys.set_int_max_str_digits\<close>) and raises ValueError beyond. The same limit
  stops \<^verbatim>\<open>response.json()\<close> from returning a longer integer, so the integers of
  a decoded payload are within it; the one integer the client formats that the caller
  chooses is \<^verbatim>\<open>timeout\<close>, and the loop below tests the limit for it. A job id
  given by the caller is a string by its annotation.
\<close>

definition int_max_str_digits :: nat where
  "int_max_str_digits = 4300"

text \<open>
  \<^verbatim>\<open>str(v)\<close>, which is also what an f-string puts for \<^verbatim>\<open>{v}\<close>; the first
  argument is the world's \<open>repr_of\<close>.
\<close>

fun py_str :: "(json \<Rightarrow> string) \<Rightarrow> json \<Rightarrow> string" where
  "py_str r (JStr s) = s"
| "py_str r JNull = ''None''"
| "py_str r (JBool b) = (if b then ''True'' else ''False'')"
| "py_str r (JInt i) = (if i < 0 then ''-'' @ decimal (nat (- i)) else decimal (nat i))"
| "py_str r v = r v"

text \<open>\<^verbatim>\<open>s.rstrip(ch)\<close> for a single character \<open>ch\<close>.\<close>

definition rstrip :: "char \<Rightarrow> string \<Rightarrow> string" where
  "rstrip ch s = rev (dropWhile (\<lambda>c. c = ch) (rev s))"

text \<open>\<^verbatim>\<open>d[k]\<close>: a missing key raises KeyError, a value that is no dictionary TypeError.\<close>

fun subscript :: "json \<Rightarrow> string \<Rightarrow> exn + json" where
  "subscript (JObj d) k = (case map_of d k of None \<Rightarrow> Inl (KeyError k) | Some v \<Rightarrow> Inr v)"
| "subscript v k = Inl TypeError"

text \<open>\<^verbatim>\<open>d.get(k)\<close>: \<^verbatim>\<open>None\<close> for a missing key.\<close>

fun dict_get :: "json \<Rightarrow> string \<Rightarrow> exn + json" where
  "dict_get (JObj d) k = Inr (case map_of d k of None \<Rightarrow> JNull | Some v \<Rightarrow> v)"
| "dict_get v k = Inl AttributeError"

definition time_time :: "world \<Rightarrow> rat \<times> world" where
  "time_time w = (clock w (reads w), w\<lparr>reads := Suc (reads w)\<rparr>)"

text \<open>
  \<^verbatim>\<open>time.sleep(secs)\<close> for an integer. The length is first converted to a count of
  nanoseconds in 64 bits, which raises OverflowError beyond 9223372036 seconds either
  way; a negative length that converts is then refused with ValueError.
\<close>

definition time_sleep :: "int \<Rightarrow> world \<Rightarrow> (exn + unit) \<times> world" where
  "time_sleep secs w =
     (if secs < - 9223372036 \<or> 9223372036 < secs then (Inl OverflowError, w)
      else if secs < 0 then (Inl ValueError, w)
      else (Inr (), w\<lparr>slept := slept w @ [secs]\<rparr>))"

definition print_line :: "string \<Rightarrow> world \<Rightarrow> world" where
  "print_line s w = w\<lparr>printed := printed w @ [s]\<rparr>"

subsection \<open>The HTTP session\<close>

definition session_request ::
  "ApartmentScraperClient \<Rightarrow> http_method \<Rightarrow> string \<Rightarrow> json option \<Rightarrow> world
     \<Rightarrow> http_outcome \<times> world" where
  "session_request self v u body w =
     (replies w (length (sent w)),
      w\<lparr>sent := sent w @ [\<lparr>verb = v, url = u, headers = session_headers self, json_body = body\<rparr>]\<rparr>)"

definition raise_for_status :: "nat \<Rightarrow> exn option" where
  "raise_for_status code = (if 400 \<le> code \<and> code < 600 then Some (HTTPError code) else None)"

definition response_json :: "json option \<Rightarrow> exn + json" where
  "response_json content = (case content of None \<Rightarrow> Inl JSONDecodeError | Some v \<Rightarrow> Inr v)"

text \<open>
  What the three lines every method of the client shares make of an outcome:
  \<^verbatim>\<open>response = self.session.get(...); response.raise_for_status(); response.json()\<close>.
\<close>

definition reply_json :: "http_outcome \<Rightarrow> exn + json" where
  "reply_json out =
     (case out of
        ConnFail m \<Rightarrow> Inl (RequestException m)
      | Response code content \<Rightarrow>
          (case raise_for_status code of
             Some e \<Rightarrow> Inl e
           | None \<Rightarrow> response_json content))"

definition request_json ::
  "ApartmentScraperClient \<Rightarrow> http_method \<Rightarrow> string \<Rightarrow> json option \<Rightarrow> world
     \<Rightarrow> (exn + json) \<times> world" where
  "request_json self v u body w =
     (case session_request self v u body w of (out, w') \<Rightarrow> (reply_json out, w'))"

section \<open>The client\<close>

definition init :: "string \<Rightarrow> string option \<Rightarrow> ApartmentScraperClient" where
  "init base_url' api_key' =
     \<lparr>base_url = rstrip CHR ''/'' base_url',
      api_key = api_key',
      session_headers =
        (case api_key' of
           None \<Rightarrow> []
         | Some k \<Rightarrow> if k = [] then [] else [(''Authorization'', ''Bearer '' @ k)])\<rparr>"

definition start_url :: "ApartmentScraperClient \<Rightarrow> string" where
  "start_url self = base_url self @ ''/api/scrape/start''"

definition status_url :: "ApartmentScraperClient \<Rightarrow> world \<Rightarrow> json \<Rightarrow> string" where
  "status_url self w jid = base_url self @ ''/api/scrape/status/'' @ py_str (repr_of w) jid"

definition results_url :: "ApartmentScraperClient \<Rightarrow> world \<Rightarrow> json \<Rightarrow> string" where
  "results_url self w jid = base_url self @ ''/api/scrape/results/'' @ py_str (repr_of w) jid"

definition cancel_url :: "ApartmentScraperClient \<Rightarrow> world \<Rightarrow> json \<Rightarrow> string" where
  "cancel_url self w jid = base_url self @ ''/api/scrape/cancel/'' @ py_str (repr_of w) jid"

text \<open>
  The dictionary \<^verbatim>\<open>payload\<close> of \<^verbatim>\<open>start_scrape\<close>. \<^verbatim>\<open>if request.filters:\<close> is
  Python's truth test: \<^verbatim>\<open>None\<close> and the empty dictionary are both false.
\<close>

definition start_payload :: "ScrapeRequest \<Rightarrow> (string \<times> json) list" where
  "start_payload request =
     (let payload =
            [(''city'', JStr (city request)),
             (''state'', JStr (state request)),
             (''maxPages'', JInt (max_pages request))]
      in case filters request of
           None \<Rightarrow> payload
         | Some f \<Rightarrow> if f = [] then payload else payload @ [(''filters'', JObj f)])"

definition start_scrape ::
  "ApartmentScraperClient \<Rightarrow> world \<Rightarrow> ScrapeRequest \<Rightarrow> (exn + json) \<times> world" where
  "start_scrape self w request =
     request_json self POST (start_url self) (Some (JObj (start_payload request))) w"

text \<open>
  The call \<^verbatim>\<open>JobStatus(job_id=data['jobId'], ...)\<close>: the arguments are evaluated in
  the order written, so the first missing key is the one KeyError names.
\<close>

definition decode_status :: "json \<Rightarrow> exn + JobStatus" where
  "decode_status data =
     (case subscript data ''jobId'' of Inl e \<Rightarrow> Inl e | Inr a \<Rightarrow>
     (case subscript data ''status'' of Inl e \<Rightarrow> Inl e | Inr b \<Rightarrow>
     (case subscript data ''progress'' of Inl e \<Rightarrow> Inl e | Inr c \<Rightarrow>
     (case subscript data ''createdAt'' of Inl e \<Rightarrow> Inl e | Inr d \<Rightarrow>
     (case subscript data ''updatedAt'' of Inl e \<Rightarrow> Inl e | Inr u \<Rightarrow>
     (case dict_get data ''completedAt'' of Inl e \<Rightarrow> Inl e | Inr f \<Rightarrow>
     (case dict_get data ''error'' of Inl e \<Rightarrow> Inl e | Inr g \<Rightarrow>
        Inr \<lparr>job_id = a, status = b, progress = c, created_at = d, updated_at = u,
             completed_at = f, error = g\<rparr>)))))))"

definition get_status ::
  "ApartmentScraperClient \<Rightarrow> world \<Rightarrow> json \<Rightarrow> (exn + JobStatus) \<times> world" where
  "get_status self w jid =
     (case request_json self GET (status_url self w jid) None w of
        (Inl e, w') \<Rightarrow> (Inl e, w')
      | (Inr data, w') \<Rightarrow> (decode_status data, w'))"

definition get_results ::
  "ApartmentScraperClient \<Rightarrow> world \<Rightarrow> json \<Rightarrow> (exn + json) \<times> world" where
  "get_results self w jid = request_json self GET (results_url self w jid) None w"

definition cancel_job ::
  "ApartmentScraperClient \<Rightarrow> world \<Rightarrow> json \<Rightarrow> (exn + json) \<times> world" where
  "cancel_job self w jid = request_json self POST (cancel_url self w jid) None w"

text \<open>The progress line of the poll loop; its subscripts can raise.\<close>

definition progress_line :: "(json \<Rightarrow> string) \<Rightarrow> JobStatus \<Rightarrow> exn + string" where
  "progress_line r st =
     (case subscript (progress st) ''currentPage'' of Inl e \<Rightarrow> Inl e | Inr cp \<Rightarrow>
     (case subscript (progress st) ''totalPages'' of Inl e \<Rightarrow> Inl e | Inr tp \<Rightarrow>
     (case subscript (progress st) ''listingsScraped'' of Inl e \<Rightarrow> Inl e | Inr ls \<Rightarrow>
        Inr (''Status: '' @ py_str r (status st) @ '' - Page '' @ py_str r cp @ ''/''
             @ py_str r tp @ '' - Scraped: '' @ py_str r ls))))"

text \<open>
  The body of the \<^verbatim>\<open>while\<close> loop of \<^verbatim>\<open>poll_until_complete\<close>: \<open>Inl\<close> leaves the
  loop (a \<^verbatim>\<open>return\<close> or a \<^verbatim>\<open>raise\<close>), \<open>Inr\<close> goes round again.
\<close>

definition poll_body ::
  "ApartmentScraperClient \<Rightarrow> json \<Rightarrow> int \<Rightarrow> world \<Rightarrow> ((exn + json) \<times> world) + world" where
  "poll_body self jid interval w =
     (case get_status self w jid of
        (Inl e, w1) \<Rightarrow> Inl (Inl e, w1)
      | (Inr st, w1) \<Rightarrow>
          if status st = JStr ''completed'' then Inl (get_results self w1 jid)
          else if status st = JStr ''failed'' then
            Inl (Inl (RuntimeError (''Job failed: '' @ py_str (repr_of w1) (error st))), w1)
          else if status st = JStr ''cancelled'' then
            Inl (Inl (RuntimeError ''Job was cancelled''), w1)
          else
            (case progress_line (repr_of w1) st of
               Inl e \<Rightarrow> Inl (Inl e, w1)
             | Inr line \<Rightarrow>
                 (case time_sleep interval (print_line line w1) of
                    (Inl e, w2) \<Rightarrow> Inl (Inl e, w2)
                  | (Inr _, w2) \<Rightarrow> Inr w2)))"

text \<open>
  The loop itself. The scripts of the world are arbitrary, so the loop need not end
  (a clock that never advances, a job that stays pending): \<open>None\<close> is not returning.
  The message of the TimeoutError formats \<^verbatim>\<open>timeout\<close>, which raises ValueError
  instead when the integer has more than 4300 digits.
\<close>

partial_function (option) poll_loop ::
  "ApartmentScraperClient \<Rightarrow> json \<Rightarrow> int \<Rightarrow> int \<Rightarrow> rat \<Rightarrow> world
     \<Rightarrow> ((exn + json) \<times> world) option" where
  "poll_loop self jid interval timeout start_time w =
     (case time_time w of
        (now, w1) \<Rightarrow>
          if now - start_time < of_int timeout then
            (case poll_body self jid interval w1 of
               Inl r \<Rightarrow> Some r
             | Inr w2 \<Rightarrow> poll_loop self jid interval timeout start_time w2)
          else if \<bar>timeout\<bar> < 10 ^ int_max_str_digits then
            Some (Inl (TimeoutError
                    (''Job did not complete within '' @ py_str (repr_of w1) (JInt timeout) @ '' seconds'')),
                  w1)
          else Some (Inl ValueError, w1))"

definition poll_until_complete ::
  "ApartmentScraperClient \<Rightarrow> world \<Rightarrow> json \<Rightarrow> int \<Rightarrow> int
     \<Rightarrow> ((exn + json) \<times> world) option" where
  "poll_until_complete self w jid interval timeout =
     (case time_time w of
        (start_time, w0) \<Rightarrow> poll_loop self jid interval timeout start_time w0)"

text \<open>\<^verbatim>\<open>scrape_and_wait\<close> polls with the default timeout of 300 seconds.\<close>

definition scrape_and_wait ::
  "ApartmentScraperClient \<Rightarrow> world \<Rightarrow> ScrapeRequest \<Rightarrow> int
     \<Rightarrow> ((exn + json) \<times> world) option" where
  "scrape_and_wait self w request poll_interval =
     (case start_scrape self w request of
        (Inl e, w1) \<Rightarrow> Some (Inl e, w1)
      | (Inr result, w1) \<Rightarrow>
          (case subscript result ''jobId'' of
             Inl e \<Rightarrow> Some (Inl e, w1)
           | Inr jid \<Rightarrow>
               (case poll_until_complete self
                       (print_line (''Job started: '' @ py_str (repr_of w1) jid) w1) jid poll_interval 300 of
                  None \<Rightarrow> None
                | Some (Inl e, w2) \<Rightarrow> Some (Inl e, w2)
                | Some (Inr results, w2) \<Rightarrow>
                    (case subscript results ''results'' of
                       Inl e \<Rightarrow> Some (Inl e, w2)
                     | Inr v \<Rightarrow> Some (Inr v, w2)))))"

section \<open>Vocabulary of the properties\<close>

text \<open>The requests the methods send, as the session logs them.\<close>

definition start_request :: "ApartmentScraperClient \<Rightarrow> ScrapeRequest \<Rightarrow> http_request" where
  "start_request self request =
     \<lparr>verb = POST, url = start_url self, headers = session_headers self,
      json_body = Some (JObj (start_payload request))\<rparr>"

definition status_request :: "ApartmentScraperClient \<Rightarrow> world \<Rightarrow> json \<Rightarrow> http_request" where
  "status_request self w jid =
     \<lparr>verb = GET, url = status_url self w jid, headers = session_headers self, json_body = None\<rparr>"

definition results_request :: "ApartmentScraperClient \<Rightarrow> world \<Rightarrow> json \<Rightarrow> http_request" where
  "results_request self w jid =
     \<lparr>verb = GET, url = results_url self w jid, headers = session_headers self, json_body = None\<rparr>"

definition cancel_request :: "ApartmentScraperClient \<Rightarrow> world \<Rightarrow> json \<Rightarrow> http_request" where
  "cancel_request self w jid =
     \<lparr>verb = POST, url = cancel_url self w jid, headers = session_headers self, json_body = None\<rparr>"

text \<open>A transport or HTTP failure of an outcome, and the error it raises.\<close>

definition http_failure :: "http_outcome \<Rightarrow> exn option" where
  "http_failure out =
     (case out of
        ConnFail m \<Rightarrow> Some (RequestException m)
      | Response code content \<Rightarrow> raise_for_status code)"

text \<open>What \<^verbatim>\<open>get_status\<close> makes of the \<open>n\<close>-th reply of the script.\<close>

definition status_reply :: "world \<Rightarrow> nat \<Rightarrow> exn + JobStatus" where
  "status_reply w n =
     (case reply_json (replies w n) of Inl e \<Rightarrow> Inl e | Inr data \<Rightarrow> decode_status data)"

text \<open>
  The \<open>n\<close>-th reply is a status that keeps the poll loop going: it decodes, it is
  none of the three terminal statuses, and its progress has the three counters the
  loop prints.
\<close>

definition pending :: "world \<Rightarrow> nat \<Rightarrow> bool" where
  "pending w n =
     (case status_reply w n of
        Inl e \<Rightarrow> False
      | Inr st \<Rightarrow>
          status st \<noteq> JStr ''completed'' \<and> status st \<noteq> JStr ''failed''
          \<and> status st \<noteq> JStr ''cancelled'' \<and> \<not> isl (progress_line (repr_of w) st))"

text \<open>
  The time \<^verbatim>\<open>poll_until_complete\<close>, called in \<open>w\<close>, sees elapsed when it tests
  its loop condition for the \<open>i\<close>-th time (counting from 0).
\<close>

definition elapsed :: "world \<Rightarrow> nat \<Rightarrow> rat" where
  "elapsed w i = clock w (reads w + Suc i) - clock w (reads w)"

section \<open>A scripted world for examples\<close>

text \<open>
  A world that has seen nothing yet, with the replies and the clock readings given as
  lists; past the end of the lists the connection is refused and the clock reads 0.
\<close>

definition scripted :: "http_outcome list \<Rightarrow> rat list \<Rightarrow> world" where
  "scripted rs ts =
     \<lparr>replies = (\<lambda>n. if n < length rs then rs ! n else ConnFail ''connection refused''),
      clock = (\<lambda>n. if n < length ts then ts ! n else 0),
      repr_of = (\<lambda>v. ''?''),
      sent = [], reads = 0, slept = [], printed = []\<rparr>"

definition example_client :: ApartmentScraperClient where
  "example_client = init ''https://apartment-scraper.workers.dev/'' None"

definition example_request :: ScrapeRequest where
  "example_request = \<lparr>city = ''atlanta'', state = ''ga'', filters = Some [], max_pages = 5\<rparr>"

definition example_status :: "string \<Rightarrow> (string \<times> json) list \<Rightarrow> http_outcome" where
  "example_status s extra =
     Response 200 (Some (JObj (
       [(''jobId'', JStr ''job-1''),
        (''status'', JStr s),
        (''progress'', JObj [(''currentPage'', JInt 1), (''totalPages'', JInt 3),
                             (''listingsScraped'', JInt 20)]),
        (''createdAt'', JStr ''2024-01-01T00:00:00Z''),
        (''updatedAt'', JStr ''2024-01-01T00:00:05Z'')] @ extra)))"

definition example_results :: json where
  "example_results =
     JObj [(''results'', JArr [JObj [(''propertyName'', JStr ''Elora''), (''minPrice'', JInt 1728)]]),
           (''total'', JInt 1)]"

section \<open>Facts about the session and the loop\<close>

lemma rstrip_no_trailing: "rstrip ch s = [] \<or> last (rstrip ch s) \<noteq> ch"
proof (cases "dropWhile (\<lambda>c. c = ch) (rev s) = []")
  case True
  then show ?thesis by (simp add: rstrip_def)
next
  case False
  then have "hd (dropWhile (\<lambda>c. c = ch) (rev s)) \<noteq> ch"
    using hd_dropWhile [of "\<lambda>c. c = ch" "rev s"] by simp
  with False show ?thesis by (simp add: rstrip_def last_rev)
qed

lemma rstrip_only_trailing: "\<exists>n. s = rstrip ch s @ replicate n ch"
proof -
  have "rev s = takeWhile (\<lambda>c. c = ch) (rev s) @ dropWhile (\<lambda>c. c = ch) (rev s)"
    by simp
  moreover have "takeWhile (\<lambda>c. c = ch) (rev s) = replicate (length (takeWhile (\<lambda>c. c = ch) (rev s))) ch"
    by (rule replicate_length_same [symmetric]) (auto dest: set_takeWhileD)
  ultimately have "rev s = replicate (length (takeWhile (\<lambda>c. c = ch) (rev s))) ch @ dropWhile (\<lambda>c. c = ch) (rev s)"
    by simp
  then have "rev (rev s) = rev (replicate (length (takeWhile (\<lambda>c. c = ch) (rev s))) ch @ dropWhile (\<lambda>c. c = ch) (rev s))"
    by (rule arg_cong)
  then show ?thesis by (auto simp: rstrip_def)
qed

lemma request_json_eq:
  "request_json self v u body w =
     (reply_json (replies w (length (sent w))),
      w\<lparr>sent := sent w @ [\<lparr>verb = v, url = u, headers = session_headers self, json_body = body\<rparr>]\<rparr>)"
  by (simp add: request_json_def session_request_def)

lemma get_status_eq:
  "get_status self w jid =
     (status_reply w (length (sent w)), w\<lparr>sent := sent w @ [status_request self w jid]\<rparr>)"
  by (simp add: get_status_def request_json_eq status_reply_def status_request_def split: sum.splits)

lemma get_results_eq:
  "get_results self w jid =
     (reply_json (replies w (length (sent w))), w\<lparr>sent := sent w @ [results_request self w jid]\<rparr>)"
  by (simp add: get_results_def request_json_eq results_request_def)

lemma cancel_job_eq:
  "cancel_job self w jid =
     (reply_json (replies w (length (sent w))), w\<lparr>sent := sent w @ [cancel_request self w jid]\<rparr>)"
  by (simp add: cancel_job_def request_json_eq cancel_request_def)

lemma start_scrape_eq:
  "start_scrape self w request =
     (reply_json (replies w (length (sent w))), w\<lparr>sent := sent w @ [start_request self request]\<rparr>)"
  by (simp add: start_scrape_def request_json_eq start_request_def)

lemma http_failure_reply: "http_failure out = Some e \<Longrightarrow> reply_json out = Inl e"
  by (auto simp: http_failure_def reply_json_def split: http_outcome.splits)

lemma poll_loop_step:
  "clock w (reads w) - start < of_int timeout \<Longrightarrow>
   poll_loop self jid interval timeout start w =
     (case poll_body self jid interval (w\<lparr>reads := Suc (reads w)\<rparr>) of
        Inl r \<Rightarrow> Some r
      | Inr w2 \<Rightarrow> poll_loop self jid interval timeout start w2)"
  by (subst poll_loop.simps) (simp add: time_time_def)

lemma poll_loop_timeout:
  "\<not> clock w (reads w) - start < of_int timeout \<Longrightarrow>
   \<bar>timeout\<bar> < 10 ^ int_max_str_digits \<Longrightarrow>
   poll_loop self jid interval timeout start w =
     Some (Inl (TimeoutError
             (''Job did not complete within '' @ py_str (repr_of w) (JInt timeout) @ '' seconds'')),
           w\<lparr>reads := Suc (reads w)\<rparr>)"
  by (subst poll_loop.simps) (simp add: time_time_def)

lemma time_sleep_overflow:
  "9223372036 < secs \<Longrightarrow> time_sleep secs w = (Inl OverflowError, w)"
  by (simp add: time_sleep_def)

lemma time_sleep_negative:
  "secs < 0 \<Longrightarrow> - 9223372036 \<le> secs \<Longrightarrow> time_sleep secs w = (Inl ValueError, w)"
  by (simp add: time_sleep_def)

lemma poll_body_overflow:
  assumes "pending w (length (sent w))" and "9223372036 < interval"
  shows "\<exists>w'. poll_body self jid interval w = Inl (Inl OverflowError, w')
           \<and> sent w' = sent w @ [status_request self w jid]"
  using assms
  by (auto simp: poll_body_def get_status_eq pending_def time_sleep_def print_line_def
           split: sum.splits)

lemma poll_body_pending:
  assumes "pending w (length (sent w))" and "0 \<le> interval \<and> interval \<le> 9223372036"
  shows "\<exists>line. poll_body self jid interval w =
           Inr (w\<lparr>sent := sent w @ [status_request self w jid],
                  printed := printed w @ [line],
                  slept := slept w @ [interval]\<rparr>)"
  using assms
  by (auto simp: poll_body_def get_status_eq pending_def time_sleep_def print_line_def
           split: sum.splits)


lemma pending_frame:
  "replies w' = replies w \<Longrightarrow> repr_of w' = repr_of w \<Longrightarrow> pending w' n = pending w n"
  by (simp add: pending_def status_reply_def cong: sum.case_cong)

lemma status_reply_frame: "replies w' = replies w \<Longrightarrow> status_reply w' n = status_reply w n"
  by (simp add: status_reply_def)

lemma status_request_frame:
  "repr_of w' = repr_of w \<Longrightarrow> status_request self w' jid = status_request self w jid"
  by (simp add: status_request_def status_url_def)

lemma results_request_frame:
  "repr_of w' = repr_of w \<Longrightarrow> results_request self w' jid = results_request self w jid"
  by (simp add: results_request_def results_url_def)

lemma poll_loop_pending:
  assumes "\<forall>i<k. clock w (reads w + i) - start < of_int timeout \<and> pending w (length (sent w) + i)"
    and "0 \<le> interval \<and> interval \<le> 9223372036"
  shows "\<exists>w'. poll_loop self jid interval timeout start w
                = poll_loop self jid interval timeout start w'
           \<and> replies w' = replies w \<and> clock w' = clock w \<and> repr_of w' = repr_of w
           \<and> reads w' = reads w + k
           \<and> sent w' = sent w @ replicate k (status_request self w jid)
           \<and> slept w' = slept w @ replicate k interval
           \<and> length (printed w') = length (printed w) + k"
  using assms
proof (induction k arbitrary: w)
  case 0
  show ?case by (rule exI [of _ w]) simp
next
  case (Suc k)
  let ?w0 = "w\<lparr>reads := Suc (reads w)\<rparr>"
  from Suc.prems(1) have t0: "clock w (reads w) - start < of_int timeout"
    and p0: "pending w (length (sent w))"
    by force+
  have "pending ?w0 (length (sent ?w0))"
    using p0 by (simp add: pending_frame [of ?w0 w])
  from poll_body_pending [OF this Suc.prems(2), of self jid]
  obtain line where body:
    "poll_body self jid interval ?w0 =
       Inr (?w0\<lparr>sent := sent ?w0 @ [status_request self ?w0 jid],
                printed := printed ?w0 @ [line], slept := slept ?w0 @ [interval]\<rparr>)"
    by blast
  define w1 where
    "w1 = ?w0\<lparr>sent := sent ?w0 @ [status_request self ?w0 jid],
               printed := printed ?w0 @ [line], slept := slept ?w0 @ [interval]\<rparr>"
  have step: "poll_loop self jid interval timeout start w
                = poll_loop self jid interval timeout start w1"
    using poll_loop_step [OF t0, of self jid interval] body by (simp add: w1_def)
  have frame: "replies w1 = replies w" "clock w1 = clock w" "repr_of w1 = repr_of w"
    "reads w1 = Suc (reads w)" "sent w1 = sent w @ [status_request self w jid]"
    "slept w1 = slept w @ [interval]" "length (printed w1) = Suc (length (printed w))"
    by (simp_all add: w1_def status_request_frame [of ?w0 w])
  have "\<forall>i<k. clock w1 (reads w1 + i) - start < of_int timeout
               \<and> pending w1 (length (sent w1) + i)"
  proof (intro allI impI)
    fix i assume "i < k"
    then have "Suc i < Suc k" by simp
    with Suc.prems(1) have "clock w (reads w + Suc i) - start < of_int timeout
        \<and> pending w (length (sent w) + Suc i)" by blast
    then show "clock w1 (reads w1 + i) - start < of_int timeout
        \<and> pending w1 (length (sent w1) + i)"
      by (simp add: frame pending_frame [of w1 w])
  qed
  from Suc.IH [OF this Suc.prems(2)] obtain w' where w':
    "poll_loop self jid interval timeout start w1 = poll_loop self jid interval timeout start w'"
    "replies w' = replies w1" "clock w' = clock w1" "repr_of w' = repr_of w1"
    "reads w' = reads w1 + k" "sent w' = sent w1 @ replicate k (status_request self w1 jid)"
    "slept w' = slept w1 @ replicate k interval" "length (printed w') = length (printed w1) + k"
    by blast
  show ?case
  proof (intro exI [of _ w'] conjI)
    show "sent w' = sent w @ replicate (Suc k) (status_request self w jid)"
      using w'(6) by (simp add: frame status_request_frame [of w1 w])
    show "slept w' = slept w @ replicate (Suc k) interval"
      using w'(7) by (simp add: frame replicate_app_Cons_same)
  qed (simp_all add: step w' frame)
qed

lemma poll_until_complete_pending:
  assumes "\<forall>i<k. elapsed w i < of_int timeout \<and> pending w (length (sent w) + i)"
    and "0 \<le> interval \<and> interval \<le> 9223372036"
  shows "\<exists>w'. poll_until_complete self w jid interval timeout
                = poll_loop self jid interval timeout (clock w (reads w)) w'
           \<and> replies w' = replies w \<and> clock w' = clock w \<and> repr_of w' = repr_of w
           \<and> reads w' = reads w + Suc k
           \<and> sent w' = sent w @ replicate k (status_request self w jid)
           \<and> slept w' = slept w @ replicate k interval"
proof -
  let ?w0 = "w\<lparr>reads := Suc (reads w)\<rparr>"
  have "\<forall>i<k. clock ?w0 (reads ?w0 + i) - clock w (reads w) < of_int timeout
              \<and> pending ?w0 (length (sent ?w0) + i)"
    using assms(1) by (simp add: elapsed_def pending_frame [of ?w0 w])
  from poll_loop_pending [OF this assms(2), of self jid] obtain w' where
    "poll_loop self jid interval timeout (clock w (reads w)) ?w0
       = poll_loop self jid interval timeout (clock w (reads w)) w'"
    "replies w' = replies ?w0" "clock w' = clock ?w0" "repr_of w' = repr_of ?w0"
    "reads w' = reads ?w0 + k" "sent w' = sent ?w0 @ replicate k (status_request self ?w0 jid)"
    "slept w' = slept ?w0 @ replicate k interval"
    by blast
  then show ?thesis
    by (intro exI [of _ w'])
       (simp add: poll_until_complete_def time_time_def status_request_frame [of ?w0 w])
qed

lemma poll_body_error:
  "status_reply w (length (sent w)) = Inl e \<Longrightarrow>
   poll_body self jid interval w =
     Inl (Inl e, w\<lparr>sent := sent w @ [status_request self w jid]\<rparr>)"
  by (simp add: poll_body_def get_status_eq)

lemma poll_body_completed:
  "status_reply w (length (sent w)) = Inr st \<Longrightarrow> status st = JStr ''completed'' \<Longrightarrow>
   poll_body self jid interval w =
     Inl (get_results self (w\<lparr>sent := sent w @ [status_request self w jid]\<rparr>) jid)"
  by (simp add: poll_body_def get_status_eq)

lemma poll_body_failed:
  "status_reply w (length (sent w)) = Inr st \<Longrightarrow> status st = JStr ''failed'' \<Longrightarrow>
   poll_body self jid interval w =
     Inl (Inl (RuntimeError (''Job failed: '' @ py_str (repr_of w) (error st))),
          w\<lparr>sent := sent w @ [status_request self w jid]\<rparr>)"
  by (simp add: poll_body_def get_status_eq)

lemma poll_body_cancelled:
  "status_reply w (length (sent w)) = Inr st \<Longrightarrow> status st = JStr ''cancelled'' \<Longrightarrow>
   poll_body self jid interval w =
     Inl (Inl (RuntimeError ''Job was cancelled''),
          w\<lparr>sent := sent w @ [status_request self w jid]\<rparr>)"
  by (simp add: poll_body_def get_status_eq)

lemma poll_until_complete_last:
  assumes "\<forall>i<k. elapsed w i < of_int timeout \<and> pending w (length (sent w) + i)"
    and "0 \<le> interval \<and> interval \<le> 9223372036"
    and "elapsed w k < of_int timeout"
  shows "\<exists>w1. poll_until_complete self w jid interval timeout
                = (case poll_body self jid interval w1 of
                     Inl r \<Rightarrow> Some r
                   | Inr w2 \<Rightarrow> poll_loop self jid interval timeout (clock w (reads w)) w2)
           \<and> replies w1 = replies w \<and> clock w1 = clock w \<and> repr_of w1 = repr_of w
           \<and> sent w1 = sent w @ replicate k (status_request self w jid)"
proof -
  from poll_until_complete_pending [OF assms(1,2), of self jid] obtain w' where w':
    "poll_until_complete self w jid interval timeout
       = poll_loop self jid interval timeout (clock w (reads w)) w'"
    "replies w' = replies w" "clock w' = clock w" "repr_of w' = repr_of w"
    "reads w' = reads w + Suc k" "sent w' = sent w @ replicate k (status_request self w jid)"
    by blast
  have "clock w' (reads w') - clock w (reads w) < of_int timeout"
    using assms(3) by (simp add: w' elapsed_def)
  from poll_loop_step [OF this, of self jid interval] show ?thesis
    by (intro exI [of _ "w'\<lparr>reads := Suc (reads w')\<rparr>"]) (simp add: w')
qed

lemma poll_until_complete_expired:
  assumes "\<forall>i<k. elapsed w i < of_int timeout \<and> pending w (length (sent w) + i)"
    and "0 \<le> interval \<and> interval \<le> 9223372036"
    and "\<not> elapsed w k < of_int timeout"
    and "\<bar>timeout\<bar> < 10 ^ int_max_str_digits"
  shows "\<exists>w'. poll_until_complete self w jid interval timeout
                = Some (Inl (TimeoutError (''Job did not complete within ''
                               @ py_str (repr_of w) (JInt timeout) @ '' seconds'')), w')
           \<and> sent w' = sent w @ replicate k (status_request self w jid)
           \<and> slept w' = slept w @ replicate k interval"
proof -
  from poll_until_complete_pending [OF assms(1,2), of self jid] obtain w' where w':
    "poll_until_complete self w jid interval timeout
       = poll_loop self jid interval timeout (clock w (reads w)) w'"
    "replies w' = replies w" "clock w' = clock w" "repr_of w' = repr_of w"
    "reads w' = reads w + Suc k" "sent w' = sent w @ replicate k (status_request self w jid)"
    "slept w' = slept w @ replicate k interval"
    by blast
  have "\<not> clock w' (reads w') - clock w (reads w) < of_int timeout"
    using assms(3) by (simp add: w' elapsed_def)
  from poll_loop_timeout [OF this assms(4), of self jid interval] show ?thesis
    by (intro exI [of _ "w'\<lparr>reads := Suc (reads w')\<rparr>"]) (simp add: w')
qed

lemma poll_completed_run:
  assumes "\<forall>i<k. elapsed w i < of_int timeout \<and> pending w (length (sent w) + i)"
    and "0 \<le> interval \<and> interval \<le> 9223372036"
    and "elapsed w k < of_int timeout"
    and "status_reply w (length (sent w) + k) = Inr st"
    and "status st = JStr ''completed''"
  shows "\<exists>w1. poll_until_complete self w jid interval timeout = Some (get_results self w1 jid)
           \<and> sent w1 = sent w @ replicate (Suc k) (status_request self w jid)
           \<and> get_results self w1 jid =
               (reply_json (replies w (length (sent w) + Suc k)),
                w1\<lparr>sent := sent w1 @ [results_request self w jid]\<rparr>)"
proof -
  from poll_until_complete_last [OF assms(1-3), of self jid] obtain w1 where w1:
    "poll_until_complete self w jid interval timeout
       = (case poll_body self jid interval w1 of
            Inl r \<Rightarrow> Some r
          | Inr w2 \<Rightarrow> poll_loop self jid interval timeout (clock w (reads w)) w2)"
    "replies w1 = replies w" "repr_of w1 = repr_of w"
    "sent w1 = sent w @ replicate k (status_request self w jid)"
    by blast
  let ?w2 = "w1\<lparr>sent := sent w1 @ [status_request self w1 jid]\<rparr>"
  have "status_reply w1 (length (sent w1)) = Inr st"
    using assms(4) by (simp add: w1 status_reply_frame [of w1 w])
  from poll_body_completed [OF this assms(5), of self jid interval]
  have "poll_until_complete self w jid interval timeout = Some (get_results self ?w2 jid)"
    by (simp add: w1(1))
  moreover have "sent ?w2 = sent w @ replicate (Suc k) (status_request self w jid)"
    by (simp add: w1 status_request_frame [of w1 w] replicate_append_same)
  moreover have "get_results self ?w2 jid =
      (reply_json (replies w (length (sent w) + Suc k)),
       ?w2\<lparr>sent := sent ?w2 @ [results_request self w jid]\<rparr>)"
    by (simp add: get_results_eq w1 results_request_def results_url_def)
  ultimately show ?thesis by blast
qed

lemma poll_failed_run:
  assumes "\<forall>i<k. elapsed w i < of_int timeout \<and> pending w (length (sent w) + i)"
    and "0 \<le> interval \<and> interval \<le> 9223372036"
    and "elapsed w k < of_int timeout"
    and "status_reply w (length (sent w) + k) = Inr st"
    and "status st = JStr ''failed''"
  shows "\<exists>w'. poll_until_complete self w jid interval timeout
                = Some (Inl (RuntimeError (''Job failed: '' @ py_str (repr_of w) (error st))), w')
           \<and> sent w' = sent w @ replicate (Suc k) (status_request self w jid)"
proof -
  from poll_until_complete_last [OF assms(1-3), of self jid] obtain w1 where w1:
    "poll_until_complete self w jid interval timeout
       = (case poll_body self jid interval w1 of
            Inl r \<Rightarrow> Some r
          | Inr w2 \<Rightarrow> poll_loop self jid interval timeout (clock w (reads w)) w2)"
    "replies w1 = replies w" "repr_of w1 = repr_of w"
    "sent w1 = sent w @ replicate k (status_request self w jid)"
    by blast
  let ?w2 = "w1\<lparr>sent := sent w1 @ [status_request self w1 jid]\<rparr>"
  have "status_reply w1 (length (sent w1)) = Inr st"
    using assms(4) by (simp add: w1 status_reply_frame [of w1 w])
  from poll_body_failed [OF this assms(5), of self jid interval]
  have "poll_until_complete self w jid interval timeout
          = Some (Inl (RuntimeError (''Job failed: '' @ py_str (repr_of w) (error st))), ?w2)"
    by (simp add: w1(1,3))
  moreover have "sent ?w2 = sent w @ replicate (Suc k) (status_request self w jid)"
    by (simp add: w1 status_request_frame [of w1 w] replicate_append_same)
  ultimately show ?thesis by blast
qed

lemma poll_cancelled_run:
  assumes "\<forall>i<k. elapsed w i < of_int timeout \<and> pending w (length (sent w) + i)"
    and "0 \<le> interval \<and> interval \<le> 9223372036"
    and "elapsed w k < of_int timeout"
    and "status_reply w (length (sent w) + k) = Inr st"
    and "status st = JStr ''cancelled''"
  shows "\<exists>w'. poll_until_complete self w jid interval timeout
                = Some (Inl (RuntimeError ''Job was cancelled''), w')
           \<and> sent w' = sent w @ replicate (Suc k) (status_request self w jid)"
proof -
  from poll_until_complete_last [OF assms(1-3), of self jid] obtain w1 where w1:
    "poll_until_complete self w jid interval timeout
       = (case poll_body self jid interval w1 of
            Inl r \<Rightarrow> Some r
          | Inr w2 \<Rightarrow> poll_loop self jid interval timeout (clock w (reads w)) w2)"
    "replies w1 = replies w" "repr_of w1 = repr_of w"
    "sent w1 = sent w @ replicate k (status_request self w jid)"
    by blast
  let ?w2 = "w1\<lparr>sent := sent w1 @ [status_request self w1 jid]\<rparr>"
  have "status_reply w1 (length (sent w1)) = Inr st"
    using assms(4) by (simp add: w1 status_reply_frame [of w1 w])
  from poll_body_cancelled [OF this assms(5), of self jid interval]
  have "poll_until_complete self w jid interval timeout
          = Some (Inl (RuntimeError ''Job was cancelled''), ?w2)"
    by (simp add: w1(1))
  moreover have "sent ?w2 = sent w @ replicate (Suc k) (status_request self w jid)"
    by (simp add: w1 status_request_frame [of w1 w] replicate_append_same)
  ultimately show ?thesis by blast
qed

lemma poll_error_run:
  assumes "\<forall>i<k. elapsed w i < of_int timeout \<and> pending w (length (sent w) + i)"
    and "0 \<le> interval \<and> interval \<le> 9223372036"
    and "elapsed w k < of_int timeout"
    and "status_reply w (length (sent w) + k) = Inl e"
  shows "\<exists>w'. poll_until_complete self w jid interval timeout = Some (Inl e, w')
           \<and> sent w' = sent w @ replicate (Suc k) (status_request self w jid)"
proof -
  from poll_until_complete_last [OF assms(1-3), of self jid] obtain w1 where w1:
    "poll_until_complete self w jid interval timeout
       = (case poll_body self jid interval w1 of
            Inl r \<Rightarrow> Some r
          | Inr w2 \<Rightarrow> poll_loop self jid interval timeout (clock w (reads w)) w2)"
    "replies w1 = replies w" "repr_of w1 = repr_of w"
    "sent w1 = sent w @ replicate k (status_request self w jid)"
    by blast
  let ?w2 = "w1\<lparr>sent := sent w1 @ [status_request self w1 jid]\<rparr>"
  have "status_reply w1 (length (sent w1)) = Inl e"
    using assms(4) by (simp add: w1 status_reply_frame [of w1 w])
  from poll_body_error [OF this, of self jid interval]
  have "poll_until_complete self w jid interval timeout = Some (Inl e, ?w2)"
    by (simp add: w1(1))
  moreover have "sent ?w2 = sent w @ replicate (Suc k) (status_request self w jid)"
    by (simp add: w1 status_request_frame [of w1 w] replicate_append_same)
  ultimately show ?thesis by blast
qed

lemma status_reply_failure: "http_failure (replies w n) = Some e \<Longrightarrow> status_reply w n = Inl e"
  by (simp add: status_reply_def http_failure_reply)

lemma scrape_and_wait_run:
  assumes "reply_json (replies w (length (sent w))) = Inr result"
    and "subscript result ''jobId'' = Inr jid"
    and "\<forall>i<k. elapsed w i < 300 \<and> pending w (Suc (length (sent w)) + i)"
    and "0 \<le> poll_interval \<and> poll_interval \<le> 9223372036"
    and "elapsed w k < 300"
    and "status_reply w (Suc (length (sent w)) + k) = Inr st"
    and "status st = JStr ''completed''"
    and "reply_json (replies w (length (sent w) + k + 2)) = Inr payload"
    and "subscript payload ''results'' = Inr v"
  shows "\<exists>w'. scrape_and_wait self w request poll_interval = Some (Inr v, w')
           \<and> sent w' = sent w @ [start_request self request]
                @ replicate (Suc k) (status_request self w jid) @ [results_request self w jid]"
proof -
  define wp where
    "wp = print_line (''Job started: '' @ py_str (repr_of w) jid)
            (w\<lparr>sent := sent w @ [start_request self request]\<rparr>)"
  have frame: "replies wp = replies w" "clock wp = clock w" "repr_of wp = repr_of w"
    "reads wp = reads w" "sent wp = sent w @ [start_request self request]"
    by (simp_all add: wp_def print_line_def)
  have el: "elapsed wp i = elapsed w i" for i
    by (simp add: elapsed_def frame)
  have "\<forall>i<k. elapsed wp i < of_int 300 \<and> pending wp (length (sent wp) + i)"
    using assms(3) by (simp add: el frame pending_frame [of wp w])
  moreover have "elapsed wp k < of_int 300"
    using assms(5) by (simp add: el)
  moreover have "status_reply wp (length (sent wp) + k) = Inr st"
    using assms(6) by (simp add: frame status_reply_frame [of wp w])
  ultimately obtain w1 where w1:
    "poll_until_complete self wp jid poll_interval 300 = Some (get_results self w1 jid)"
    "sent w1 = sent wp @ replicate (Suc k) (status_request self wp jid)"
    "get_results self w1 jid =
       (reply_json (replies wp (length (sent wp) + Suc k)),
        w1\<lparr>sent := sent w1 @ [results_request self wp jid]\<rparr>)"
    using poll_completed_run [of k wp 300 poll_interval st self jid] assms(4,7) by blast
  have res: "get_results self w1 jid =
      (Inr payload, w1\<lparr>sent := sent w1 @ [results_request self wp jid]\<rparr>)"
    using w1(3) assms(8) by (simp add: frame)
  have "poll_until_complete self wp jid poll_interval 300
          = Some (Inr payload, w1\<lparr>sent := sent w1 @ [results_request self wp jid]\<rparr>)"
    using w1(1) res by simp
  then have "scrape_and_wait self w request poll_interval
          = Some (Inr v, w1\<lparr>sent := sent w1 @ [results_request self wp jid]\<rparr>)"
    using assms(1,2,9) unfolding wp_def
    by (simp add: scrape_and_wait_def start_scrape_eq)
  moreover have "sent (w1\<lparr>sent := sent w1 @ [results_request self wp jid]\<rparr>)
      = sent w @ [start_request self request]
          @ replicate (Suc k) (status_request self w jid) @ [results_request self w jid]"
    by (simp add: w1(2) frame status_request_frame [of wp w] results_request_frame [of wp w])
  ultimately show ?thesis by blast
qed

lemmas example_defs =
  scripted_def example_client_def example_status_def example_results_def init_def rstrip_def
  pending_def status_reply_def reply_json_def raise_for_status_def response_json_def
  decode_status_def progress_line_def elapsed_def
  status_url_def results_url_def

section \<open>The claims\<close>

text \<open>
  In the theorems below a run of \<^verbatim>\<open>poll_until_complete\<close> is described by the
  scripts of the world it starts in: its \<open>i\<close>-th poll (from 0) is answered by reply
  \<open>length (sent w) + i\<close>, and before it the loop sees \<open>elapsed w i\<close> seconds gone.
  The interval is one \<^verbatim>\<open>time.sleep\<close> accepts, from 0 to 9223372036 seconds: outside
  this range the first sleep raises and the loop ends there.
\<close>

text \<open>
  \<^bold>\<open>C1\<close>. For every job id: when the first \<open>k\<close> polls are pending and within the
  timeout and poll \<open>k\<close>, still within the timeout, reports \<^verbatim>\<open>completed\<close>,
  \<^verbatim>\<open>poll_until_complete\<close> returns what \<^verbatim>\<open>get_results\<close> gives for that job id
  right then: it has sent \<open>k + 1\<close> status requests, and the only request after them
  is the one for the results.
\<close>

theorem poll_until_complete_completed:
  assumes "\<forall>i<k. elapsed w i < of_int timeout \<and> pending w (length (sent w) + i)"
    and "0 \<le> interval \<and> interval \<le> 9223372036"
    and "elapsed w k < of_int timeout"
    and "status_reply w (length (sent w) + k) = Inr st"
    and "status st = JStr ''completed''"
  shows "\<exists>w1. poll_until_complete self w jid interval timeout = Some (get_results self w1 jid)
           \<and> sent w1 = sent w @ replicate (Suc k) (status_request self w jid)
           \<and> get_results self w1 jid =
               (reply_json (replies w (length (sent w) + Suc k)),
                w1\<lparr>sent := sent w1 @ [results_request self w jid]\<rparr>)"
  using assms by (rule poll_completed_run)

theorem poll_until_complete_completed_witness:
  "\<exists>w'. poll_until_complete example_client
           (scripted [example_status ''processing'' [], example_status ''completed'' [],
                      Response 200 (Some example_results)] [0, 1, 7])
           (JStr ''job-1'') 5 300 = Some (Inr example_results, w')
       \<and> map url (sent w') =
           [''https://apartment-scraper.workers.dev/api/scrape/status/job-1'',
            ''https://apartment-scraper.workers.dev/api/scrape/status/job-1'',
            ''https://apartment-scraper.workers.dev/api/scrape/results/job-1'']"
proof -
  let ?w = "scripted [example_status ''processing'' [], example_status ''completed'' [],
                      Response 200 (Some example_results)] [0, 1, 7]"
  have h1: "\<forall>i<1. elapsed ?w i < of_int 300 \<and> pending ?w (length (sent ?w) + i)"
    by (simp add: example_defs)
  have h2: "(0::int) \<le> 5 \<and> (5::int) \<le> 9223372036" by simp
  have h3: "elapsed ?w 1 < of_int 300"
    by (simp add: example_defs)
  have "\<exists>st. status_reply ?w (length (sent ?w) + 1) = Inr st \<and> status st = JStr ''completed''"
    by (simp add: example_defs)
  then obtain st where h4: "status_reply ?w (length (sent ?w) + 1) = Inr st"
    and h5: "status st = JStr ''completed''" by blast
  from poll_until_complete_completed [OF h1 h2 h3 h4 h5, of example_client "JStr ''job-1''"]
  obtain w1 where
    "poll_until_complete example_client ?w (JStr ''job-1'') 5 300
       = Some (get_results example_client w1 (JStr ''job-1''))"
    "sent w1 = sent ?w @ replicate (Suc 1) (status_request example_client ?w (JStr ''job-1''))"
    "get_results example_client w1 (JStr ''job-1'') =
       (reply_json (replies ?w (length (sent ?w) + Suc 1)),
        w1\<lparr>sent := sent w1 @ [results_request example_client ?w (JStr ''job-1'')]\<rparr>)"
    by blast
  then show ?thesis
    by (intro exI [of _ "w1\<lparr>sent := sent w1 @ [results_request example_client ?w (JStr ''job-1'')]\<rparr>"])
       (simp add: example_defs status_request_def results_request_def)
qed

text \<open>
  \<^bold>\<open>C2\<close>. For every job id: when poll \<open>k\<close>, reached as in C1, reports \<^verbatim>\<open>failed\<close>
  with the server's error text \<open>x\<close>, \<^verbatim>\<open>poll_until_complete\<close> raises RuntimeError
  with the message \<^verbatim>\<open>Job failed: x\<close>. It returns no results: the status requests are
  all it has sent.
\<close>

theorem poll_until_complete_failed:
  assumes "\<forall>i<k. elapsed w i < of_int timeout \<and> pending w (length (sent w) + i)"
    and "0 \<le> interval \<and> interval \<le> 9223372036"
    and "elapsed w k < of_int timeout"
    and "status_reply w (length (sent w) + k) = Inr st"
    and "status st = JStr ''failed''"
    and "error st = JStr x"
  shows "\<exists>w'. poll_until_complete self w jid interval timeout
                = Some (Inl (RuntimeError (''Job failed: '' @ x)), w')
           \<and> sent w' = sent w @ replicate (Suc k) (status_request self w jid)"
  using poll_failed_run [OF assms(1-5), of self jid] assms(6) by simp

theorem poll_until_complete_failed_witness:
  "\<exists>w'. poll_until_complete example_client
           (scripted [example_status ''pending'' [],
                      example_status ''failed'' [(''error'', JStr ''X'')]] [0, 1, 7])
           (JStr ''job-1'') 5 300 = Some (Inl (RuntimeError ''Job failed: X''), w')
       \<and> map url (sent w') =
           [''https://apartment-scraper.workers.dev/api/scrape/status/job-1'',
            ''https://apartment-scraper.workers.dev/api/scrape/status/job-1'']"
proof -
  let ?w = "scripted [example_status ''pending'' [],
                      example_status ''failed'' [(''error'', JStr ''X'')]] [0, 1, 7]"
  have h1: "\<forall>i<1. elapsed ?w i < of_int 300 \<and> pending ?w (length (sent ?w) + i)"
    by (simp add: example_defs)
  have h2: "(0::int) \<le> 5 \<and> (5::int) \<le> 9223372036" by simp
  have h3: "elapsed ?w 1 < of_int 300"
    by (simp add: example_defs)
  have "\<exists>st. status_reply ?w (length (sent ?w) + 1) = Inr st \<and> status st = JStr ''failed''
          \<and> error st = JStr ''X''"
    by (simp add: example_defs)
  then obtain st where h4: "status_reply ?w (length (sent ?w) + 1) = Inr st"
    and h5: "status st = JStr ''failed''" and h6: "error st = JStr ''X''" by blast
  from poll_until_complete_failed [OF h1 h2 h3 h4 h5 h6, of example_client "JStr ''job-1''"]
  obtain w' where
    "poll_until_complete example_client ?w (JStr ''job-1'') 5 300
       = Some (Inl (RuntimeError (''Job failed: '' @ ''X'')), w')"
    "sent w' = sent ?w @ replicate (Suc 1) (status_request example_client ?w (JStr ''job-1''))"
    by blast
  then show ?thesis
    by (intro exI [of _ w']) (simp add: example_defs status_request_def)
qed

text \<open>
  \<^bold>\<open>C3\<close>. For every job id: when poll \<open>k\<close> reports \<^verbatim>\<open>cancelled\<close>,
  \<^verbatim>\<open>poll_until_complete\<close> raises RuntimeError with the message
  \<^verbatim>\<open>Job was cancelled\<close>, which differs from the error raised for a failed job
  whatever the server's error text is. Both are RuntimeError: the message tells them
  apart.
\<close>

theorem poll_until_complete_cancelled:
  assumes "\<forall>i<k. elapsed w i < of_int timeout \<and> pending w (length (sent w) + i)"
    and "0 \<le> interval \<and> interval \<le> 9223372036"
    and "elapsed w k < of_int timeout"
    and "status_reply w (length (sent w) + k) = Inr st"
    and "status st = JStr ''cancelled''"
  shows "(\<exists>w'. poll_until_complete self w jid interval timeout
                 = Some (Inl (RuntimeError ''Job was cancelled''), w')
            \<and> sent w' = sent w @ replicate (Suc k) (status_request self w jid))
       \<and> (\<forall>x. RuntimeError ''Job was cancelled'' \<noteq> RuntimeError (''Job failed: '' @ x))"
  using poll_cancelled_run [OF assms, of self jid] by simp

theorem poll_until_complete_cancelled_witness:
  "(\<exists>w'. poll_until_complete example_client
           (scripted [example_status ''processing'' [],
                      example_status ''cancelled'' [(''error'', JStr ''X'')]] [0, 1, 7])
           (JStr ''job-1'') 5 300 = Some (Inl (RuntimeError ''Job was cancelled''), w')
       \<and> map url (sent w') =
           [''https://apartment-scraper.workers.dev/api/scrape/status/job-1'',
            ''https://apartment-scraper.workers.dev/api/scrape/status/job-1''])
   \<and> RuntimeError ''Job was cancelled'' \<noteq> RuntimeError ''Job failed: X''"
proof -
  let ?w = "scripted [example_status ''processing'' [],
                      example_status ''cancelled'' [(''error'', JStr ''X'')]] [0, 1, 7]"
  have h1: "\<forall>i<1. elapsed ?w i < of_int 300 \<and> pending ?w (length (sent ?w) + i)"
    by (simp add: example_defs)
  have h2: "(0::int) \<le> 5 \<and> (5::int) \<le> 9223372036" by simp
  have h3: "elapsed ?w 1 < of_int 300"
    by (simp add: example_defs)
  have "\<exists>st. status_reply ?w (length (sent ?w) + 1) = Inr st \<and> status st = JStr ''cancelled''"
    by (simp add: example_defs)
  then obtain st where h4: "status_reply ?w (length (sent ?w) + 1) = Inr st"
    and h5: "status st = JStr ''cancelled''" by blast
  from poll_until_complete_cancelled [OF h1 h2 h3 h4 h5, of example_client "JStr ''job-1''"]
  obtain w' where
    "poll_until_complete example_client ?w (JStr ''job-1'') 5 300
       = Some (Inl (RuntimeError ''Job was cancelled''), w')"
    "sent w' = sent ?w @ replicate (Suc 1) (status_request example_client ?w (JStr ''job-1''))"
    by blast
  then have "\<exists>w'. poll_until_complete example_client ?w (JStr ''job-1'') 5 300
                 = Some (Inl (RuntimeError ''Job was cancelled''), w')
       \<and> map url (sent w') =
           [''https://apartment-scraper.workers.dev/api/scrape/status/job-1'',
            ''https://apartment-scraper.workers.dev/api/scrape/status/job-1'']"
    by (intro exI [of _ w']) (simp add: example_defs status_request_def)
  then show ?thesis by simp
qed

text \<open>
  \<^bold>\<open>C4\<close>. When the first \<open>k\<close> polls are pending and within the timeout and the
  loop's next look at the clock finds the timeout reached, \<^verbatim>\<open>poll_until_complete\<close>
  raises TimeoutError after exactly \<open>k\<close> status requests; a TimeoutError is never a
  RuntimeError, the class of the errors for failed and cancelled jobs. The timeout is
  an integer that \<^verbatim>\<open>str\<close> converts (at most 4300 digits), as the message needs.
\<close>

theorem poll_until_complete_timeout:
  assumes "\<forall>i<k. elapsed w i < of_int timeout \<and> pending w (length (sent w) + i)"
    and "0 \<le> interval \<and> interval \<le> 9223372036"
    and "of_int timeout \<le> elapsed w k"
    and "\<bar>timeout\<bar> < 10 ^ int_max_str_digits"
  shows "(\<exists>w'. poll_until_complete self w jid interval timeout
                 = Some (Inl (TimeoutError (''Job did not complete within ''
                                @ py_str (repr_of w) (JInt timeout) @ '' seconds'')), w')
            \<and> sent w' = sent w @ replicate k (status_request self w jid))
       \<and> (\<forall>t m. TimeoutError t \<noteq> RuntimeError m)"
proof -
  have "\<not> elapsed w k < of_int timeout" using assms(3) by simp
  from poll_until_complete_expired [OF assms(1,2) this assms(4), of self jid]
  show ?thesis by auto
qed

theorem poll_until_complete_timeout_witness:
  "\<exists>w'. poll_until_complete example_client
           (scripted [example_status ''pending'' [], example_status ''processing'' []] [0, 0, 0, 3])
           (JStr ''job-1'') 0 3
           = Some (Inl (TimeoutError ''Job did not complete within 3 seconds''), w')
       \<and> map url (sent w') =
           [''https://apartment-scraper.workers.dev/api/scrape/status/job-1'',
            ''https://apartment-scraper.workers.dev/api/scrape/status/job-1'']"
proof -
  let ?w = "scripted [example_status ''pending'' [], example_status ''processing'' []] [0, 0, 0, 3]"
  have h1: "\<forall>i<2. elapsed ?w i < of_int 3 \<and> pending ?w (length (sent ?w) + i)"
    by (simp add: example_defs All_less_Suc numeral_2_eq_2)
  have h2: "(0::int) \<le> 0 \<and> (0::int) \<le> 9223372036" by simp
  have h3: "of_int 3 \<le> elapsed ?w 2"
    by (simp add: example_defs)
  have "(10::int) ^ 1 \<le> 10 ^ int_max_str_digits"
    by (rule power_increasing) (simp_all add: int_max_str_digits_def)
  then have h4: "\<bar>3::int\<bar> < 10 ^ int_max_str_digits" by simp
  from poll_until_complete_timeout [OF h1 h2 h3 h4, of example_client "JStr ''job-1''"]
  obtain w' where
    "poll_until_complete example_client ?w (JStr ''job-1'') 0 3
       = Some (Inl (TimeoutError (''Job did not complete within ''
                      @ py_str (repr_of ?w) (JInt 3) @ '' seconds'')), w')"
    "sent w' = sent ?w @ replicate 2 (status_request example_client ?w (JStr ''job-1''))"
    by blast
  then show ?thesis
    by (intro exI [of _ w'])
       (simp add: example_defs status_request_def decimal.simps numeral_2_eq_2)
qed

text \<open>
  \<^bold>\<open>C5\<close>. As stated the claim fails: a request whose filters mapping is present but
  empty is sent without the key \<^verbatim>\<open>filters\<close>.
\<close>

theorem start_scrape_filters_counterexample:
  "filters example_request \<noteq> None
   \<and> map json_body (sent (snd (start_scrape example_client (scripted [] []) example_request)))
       = [Some (JObj [(''city'', JStr ''atlanta''), (''state'', JStr ''ga''),
                      (''maxPages'', JInt 5)])]"
  by (simp add: example_request_def start_scrape_eq start_request_def start_payload_def
        scripted_def)

text \<open>
  \<^bold>\<open>C5\<close>, amended. For every ScrapeRequest, \<^verbatim>\<open>start_scrape\<close> sends one POST whose
  JSON body has exactly the keys \<^verbatim>\<open>city\<close>, \<^verbatim>\<open>state\<close> and \<^verbatim>\<open>maxPages\<close>, with
  the request's values, followed by the key \<^verbatim>\<open>filters\<close> exactly when the request's
  filters mapping is present and not empty, then with that mapping as its value.
\<close>

theorem start_scrape_body:
  "sent (snd (start_scrape self w request))
     = sent w @ [\<lparr>verb = POST, url = base_url self @ ''/api/scrape/start'',
                  headers = session_headers self,
                  json_body = Some (JObj (start_payload request))\<rparr>]
   \<and> map fst (start_payload request)
       = [''city'', ''state'', ''maxPages'']
         @ (case filters request of None \<Rightarrow> [] | Some f \<Rightarrow> if f = [] then [] else [''filters''])
   \<and> map_of (start_payload request) ''city'' = Some (JStr (city request))
   \<and> map_of (start_payload request) ''state'' = Some (JStr (state request))
   \<and> map_of (start_payload request) ''maxPages'' = Some (JInt (max_pages request))
   \<and> map_of (start_payload request) ''filters''
       = (case filters request of None \<Rightarrow> None | Some f \<Rightarrow> if f = [] then None else Some (JObj f))"
  by (simp add: start_scrape_eq start_request_def start_url_def start_payload_def
        split: option.splits)

theorem start_scrape_body_witness:
  "map json_body (sent (snd (start_scrape example_client (scripted [] [])
       (example_request\<lparr>filters := Some [(''minPrice'', JInt 1000)]\<rparr>))))
     = [Some (JObj (start_payload (example_request\<lparr>filters := Some [(''minPrice'', JInt 1000)]\<rparr>)))]
   \<and> map fst (start_payload (example_request\<lparr>filters := Some [(''minPrice'', JInt 1000)]\<rparr>))
       = [''city'', ''state'', ''maxPages'', ''filters'']
   \<and> map fst (start_payload example_request) = [''city'', ''state'', ''maxPages'']
   \<and> map fst (start_payload (example_request\<lparr>filters := None\<rparr>)) = [''city'', ''state'', ''maxPages'']"
  using start_scrape_body [of example_client "scripted [] []"
          "example_request\<lparr>filters := Some [(''minPrice'', JInt 1000)]\<rparr>"]
    start_scrape_body [of example_client "scripted [] []" example_request]
    start_scrape_body [of example_client "scripted [] []" "example_request\<lparr>filters := None\<rparr>"]
  by (simp add: example_request_def scripted_def)

text \<open>
  \<^bold>\<open>C6\<close>. For every ScrapeRequest: when the start response carries the job id
  \<open>jid\<close>, the polls for \<open>jid\<close> run as in C1 under the default timeout of 300 seconds
  and the results payload has a \<^verbatim>\<open>results\<close> field \<open>v\<close>, \<^verbatim>\<open>scrape_and_wait\<close>
  returns exactly \<open>v\<close>, having sent the start request, the status requests for \<open>jid\<close>
  and the results request for \<open>jid\<close>, in this order.
\<close>

theorem scrape_and_wait_results:
  assumes "reply_json (replies w (length (sent w))) = Inr result"
    and "subscript result ''jobId'' = Inr jid"
    and "\<forall>i<k. elapsed w i < 300 \<and> pending w (Suc (length (sent w)) + i)"
    and "0 \<le> poll_interval \<and> poll_interval \<le> 9223372036"
    and "elapsed w k < 300"
    and "status_reply w (Suc (length (sent w)) + k) = Inr st"
    and "status st = JStr ''completed''"
    and "reply_json (replies w (length (sent w) + k + 2)) = Inr payload"
    and "subscript payload ''results'' = Inr v"
  shows "\<exists>w'. scrape_and_wait self w request poll_interval = Some (Inr v, w')
           \<and> sent w' = sent w @ [start_request self request]
                @ replicate (Suc k) (status_request self w jid) @ [results_request self w jid]"
  using assms by (rule scrape_and_wait_run)

theorem scrape_and_wait_results_witness:
  "\<exists>w'. scrape_and_wait example_client
           (scripted [Response 200 (Some (JObj [(''jobId'', JStr ''job-1''), (''status'', JStr ''pending'')])),
                      example_status ''processing'' [], example_status ''completed'' [],
                      Response 200 (Some example_results)] [0, 1, 7])
           example_request 5
         = Some (Inr (JArr [JObj [(''propertyName'', JStr ''Elora''), (''minPrice'', JInt 1728)]]), w')
       \<and> map url (sent w') =
           [''https://apartment-scraper.workers.dev/api/scrape/start'',
            ''https://apartment-scraper.workers.dev/api/scrape/status/job-1'',
            ''https://apartment-scraper.workers.dev/api/scrape/status/job-1'',
            ''https://apartment-scraper.workers.dev/api/scrape/results/job-1'']"
proof -
  let ?start = "JObj [(''jobId'', JStr ''job-1''), (''status'', JStr ''pending'')]"
  let ?w = "scripted [Response 200 (Some ?start),
                      example_status ''processing'' [], example_status ''completed'' [],
                      Response 200 (Some example_results)] [0, 1, 7]"
  let ?v = "JArr [JObj [(''propertyName'', JStr ''Elora''), (''minPrice'', JInt 1728)]]"
  have h1: "reply_json (replies ?w (length (sent ?w))) = Inr ?start"
    by (simp add: example_defs)
  have h2: "subscript ?start ''jobId'' = Inr (JStr ''job-1'')" by simp
  have h3: "\<forall>i<1. elapsed ?w i < 300 \<and> pending ?w (Suc (length (sent ?w)) + i)"
    by (simp add: example_defs)
  have h4: "(0::int) \<le> 5 \<and> (5::int) \<le> 9223372036" by simp
  have h5: "elapsed ?w 1 < 300"
    by (simp add: example_defs)
  have "\<exists>st. status_reply ?w (Suc (length (sent ?w)) + 1) = Inr st
          \<and> status st = JStr ''completed''"
    by (simp add: example_defs)
  then obtain st where h6: "status_reply ?w (Suc (length (sent ?w)) + 1) = Inr st"
    and h7: "status st = JStr ''completed''" by blast
  have h8: "reply_json (replies ?w (length (sent ?w) + 1 + 2)) = Inr example_results"
    by (simp add: scripted_def reply_json_def raise_for_status_def response_json_def)
  have h9: "subscript example_results ''results'' = Inr ?v"
    by (simp add: example_results_def)
  from scrape_and_wait_results [OF h1 h2 h3 h4 h5 h6 h7 h8 h9, of example_client example_request]
  obtain w' where
    "scrape_and_wait example_client ?w example_request 5 = Some (Inr ?v, w')"
    "sent w' = sent ?w @ [start_request example_client example_request]
                @ replicate (Suc 1) (status_request example_client ?w (JStr ''job-1''))
                @ [results_request example_client ?w (JStr ''job-1'')]"
    by blast
  then show ?thesis
    by (intro exI [of _ w'])
       (simp add: example_defs start_request_def start_url_def status_request_def
          results_request_def)
qed

text \<open>
  \<^bold>\<open>C7\<close>. A request that fails (the session raises, or the response has a 4xx or
  5xx status) ends the operation that sent it with that very error: each of
  \<^verbatim>\<open>start_scrape\<close>, \<^verbatim>\<open>get_status\<close>, \<^verbatim>\<open>get_results\<close> and \<^verbatim>\<open>cancel_job\<close> has
  sent that one request and nothing else, and \<^verbatim>\<open>poll_until_complete\<close>, whose poll
  \<open>k\<close> fails, raises the error after its \<open>k + 1\<close> status requests, with no retry.
\<close>

theorem http_failure_propagates:
  "(http_failure (replies w (length (sent w))) = Some e \<longrightarrow>
      start_scrape self w request = (Inl e, w\<lparr>sent := sent w @ [start_request self request]\<rparr>)
    \<and> get_status self w jid = (Inl e, w\<lparr>sent := sent w @ [status_request self w jid]\<rparr>)
    \<and> get_results self w jid = (Inl e, w\<lparr>sent := sent w @ [results_request self w jid]\<rparr>)
    \<and> cancel_job self w jid = (Inl e, w\<lparr>sent := sent w @ [cancel_request self w jid]\<rparr>))
   \<and> ((\<forall>i<k. elapsed v i < of_int timeout \<and> pending v (length (sent v) + i))
       \<and> 0 \<le> interval \<and> interval \<le> 9223372036 \<and> elapsed v k < of_int timeout
       \<and> http_failure (replies v (length (sent v) + k)) = Some e' \<longrightarrow>
      (\<exists>v'. poll_until_complete self v jid interval timeout = Some (Inl e', v')
         \<and> sent v' = sent v @ replicate (Suc k) (status_request self v jid)))"
proof (intro conjI impI)
  assume "(\<forall>i<k. elapsed v i < of_int timeout \<and> pending v (length (sent v) + i))
       \<and> 0 \<le> interval \<and> interval \<le> 9223372036 \<and> elapsed v k < of_int timeout
       \<and> http_failure (replies v (length (sent v) + k)) = Some e'"
  then have h: "\<forall>i<k. elapsed v i < of_int timeout \<and> pending v (length (sent v) + i)"
    "0 \<le> interval \<and> interval \<le> 9223372036" "elapsed v k < of_int timeout"
    "status_reply v (length (sent v) + k) = Inl e'"
    by (simp_all add: status_reply_failure)
  from poll_error_run [OF h, of self jid]
  show "\<exists>v'. poll_until_complete self v jid interval timeout = Some (Inl e', v')
         \<and> sent v' = sent v @ replicate (Suc k) (status_request self v jid)" .
qed (simp_all add: start_scrape_eq get_status_eq get_results_eq cancel_job_eq
       http_failure_reply status_reply_failure)

theorem http_failure_propagates_witness:
  "start_scrape example_client (scripted [Response 503 None] []) example_request
     = (Inl (HTTPError 503),
        (scripted [Response 503 None] [])\<lparr>sent := [start_request example_client example_request]\<rparr>)
   \<and> fst (get_status example_client (scripted [Response 503 None] []) (JStr ''job-1''))
       = Inl (HTTPError 503)
   \<and> fst (get_results example_client (scripted [Response 503 None] []) (JStr ''job-1''))
       = Inl (HTTPError 503)
   \<and> fst (cancel_job example_client (scripted [Response 503 None] []) (JStr ''job-1''))
       = Inl (HTTPError 503)
   \<and> (\<exists>v'. poll_until_complete example_client
               (scripted [example_status ''pending'' [], ConnFail ''connection reset''] [0, 1, 7])
               (JStr ''job-1'') 5 300
             = Some (Inl (RequestException ''connection reset''), v')
          \<and> map url (sent v') =
              [''https://apartment-scraper.workers.dev/api/scrape/status/job-1'',
               ''https://apartment-scraper.workers.dev/api/scrape/status/job-1''])"
proof -
  let ?w = "scripted [Response 503 None] []"
  let ?v = "scripted [example_status ''pending'' [], ConnFail ''connection reset''] [0, 1, 7]"
  have a: "http_failure (replies ?w (length (sent ?w))) = Some (HTTPError 503)"
    by (simp add: scripted_def http_failure_def raise_for_status_def)
  have b: "(\<forall>i<1. elapsed ?v i < of_int 300 \<and> pending ?v (length (sent ?v) + i))
       \<and> (0::int) \<le> 5 \<and> (5::int) \<le> 9223372036 \<and> elapsed ?v 1 < of_int 300
       \<and> http_failure (replies ?v (length (sent ?v) + 1)) = Some (RequestException ''connection reset'')"
    by (simp add: example_defs http_failure_def)
  from http_failure_propagates [of ?w "HTTPError 503" example_client example_request
      "JStr ''job-1''" 1 ?v 300 5 "RequestException ''connection reset''"] a b
  have ops: "start_scrape example_client ?w example_request
        = (Inl (HTTPError 503), ?w\<lparr>sent := sent ?w @ [start_request example_client example_request]\<rparr>)"
    "get_status example_client ?w (JStr ''job-1'')
        = (Inl (HTTPError 503), ?w\<lparr>sent := sent ?w @ [status_request example_client ?w (JStr ''job-1'')]\<rparr>)"
    "get_results example_client ?w (JStr ''job-1'')
        = (Inl (HTTPError 503), ?w\<lparr>sent := sent ?w @ [results_request example_client ?w (JStr ''job-1'')]\<rparr>)"
    "cancel_job example_client ?w (JStr ''job-1'')
        = (Inl (HTTPError 503), ?w\<lparr>sent := sent ?w @ [cancel_request example_client ?w (JStr ''job-1'')]\<rparr>)"
    and "\<exists>v'. poll_until_complete example_client ?v (JStr ''job-1'') 5 300
               = Some (Inl (RequestException ''connection reset''), v')
         \<and> sent v' = sent ?v @ replicate (Suc 1) (status_request example_client ?v (JStr ''job-1''))"
    by blast+
  then obtain v' where v':
    "poll_until_complete example_client ?v (JStr ''job-1'') 5 300
       = Some (Inl (RequestException ''connection reset''), v')"
    "sent v' = sent ?v @ replicate (Suc 1) (status_request example_client ?v (JStr ''job-1''))"
    by blast
  have "\<exists>v'. poll_until_complete example_client ?v (JStr ''job-1'') 5 300
             = Some (Inl (RequestException ''connection reset''), v')
          \<and> map url (sent v') =
              [''https://apartment-scraper.workers.dev/api/scrape/status/job-1'',
               ''https://apartment-scraper.workers.dev/api/scrape/status/job-1'']"
    using v' by (intro exI [of _ v']) (simp add: example_defs status_request_def)
  moreover have "sent ?w = []" by (simp add: scripted_def)
  ultimately show ?thesis using ops by simp
qed

text \<open>
  \<^bold>\<open>C8\<close>. For every response payload with the five required fields,
  \<^verbatim>\<open>get_status\<close> returns the JobStatus built from that payload alone:
  \<^verbatim>\<open>jobId\<close>, \<^verbatim>\<open>status\<close>, \<^verbatim>\<open>progress\<close>, \<^verbatim>\<open>createdAt\<close> and \<^verbatim>\<open>updatedAt\<close>
  as they are, \<^verbatim>\<open>completedAt\<close> and \<^verbatim>\<open>error\<close> as they are or \<^verbatim>\<open>None\<close> when
  absent. Neither the client nor what the world has seen before enters the value.
\<close>

theorem get_status_fresh:
  assumes "replies w (length (sent w)) = Response code (Some (JObj d))"
    and "\<not> (400 \<le> code \<and> code < 600)"
    and "map_of d ''jobId'' = Some a"
    and "map_of d ''status'' = Some b"
    and "map_of d ''progress'' = Some c"
    and "map_of d ''createdAt'' = Some cr"
    and "map_of d ''updatedAt'' = Some u"
  shows "get_status self w jid =
           (Inr \<lparr>job_id = a, status = b, progress = c, created_at = cr, updated_at = u,
                 completed_at = (case map_of d ''completedAt'' of None \<Rightarrow> JNull | Some v \<Rightarrow> v),
                 error = (case map_of d ''error'' of None \<Rightarrow> JNull | Some v \<Rightarrow> v)\<rparr>,
            w\<lparr>sent := sent w @ [status_request self w jid]\<rparr>)"
  using assms
  by (simp add: get_status_eq status_reply_def reply_json_def raise_for_status_def
        response_json_def decode_status_def)

theorem get_status_fresh_witness:
  "fst (get_status example_client
          (snd (get_status example_client
                  (scripted [example_status ''pending'' [(''error'', JStr ''old'')],
                             example_status ''completed''
                               [(''completedAt'', JStr ''2024-01-01T00:01:00Z'')]] [])
                  (JStr ''job-1'')))
          (JStr ''job-1''))
     = Inr \<lparr>job_id = JStr ''job-1'', status = JStr ''completed'',
            progress = JObj [(''currentPage'', JInt 1), (''totalPages'', JInt 3),
                             (''listingsScraped'', JInt 20)],
            created_at = JStr ''2024-01-01T00:00:00Z'', updated_at = JStr ''2024-01-01T00:00:05Z'',
            completed_at = JStr ''2024-01-01T00:01:00Z'', error = JNull\<rparr>"
proof -
  let ?w0 = "scripted [example_status ''pending'' [(''error'', JStr ''old'')],
                       example_status ''completed''
                         [(''completedAt'', JStr ''2024-01-01T00:01:00Z'')]] []"
  let ?w = "snd (get_status example_client ?w0 (JStr ''job-1''))"
  let ?d = "[(''jobId'', JStr ''job-1''), (''status'', JStr ''completed''),
             (''progress'', JObj [(''currentPage'', JInt 1), (''totalPages'', JInt 3),
                                  (''listingsScraped'', JInt 20)]),
             (''createdAt'', JStr ''2024-01-01T00:00:00Z''),
             (''updatedAt'', JStr ''2024-01-01T00:00:05Z''),
             (''completedAt'', JStr ''2024-01-01T00:01:00Z'')]"
  have h1: "replies ?w (length (sent ?w)) = Response 200 (Some (JObj ?d))"
    by (simp add: get_status_eq scripted_def example_status_def)
  have h2: "\<not> (400 \<le> (200::nat) \<and> (200::nat) < 600)" by simp
  have h3: "map_of ?d ''jobId'' = Some (JStr ''job-1'')" by simp
  have h4: "map_of ?d ''status'' = Some (JStr ''completed'')" by simp
  have h5: "map_of ?d ''progress'' = Some (JObj [(''currentPage'', JInt 1), (''totalPages'', JInt 3),
                                  (''listingsScraped'', JInt 20)])" by simp
  have h6: "map_of ?d ''createdAt'' = Some (JStr ''2024-01-01T00:00:00Z'')" by simp
  have h7: "map_of ?d ''updatedAt'' = Some (JStr ''2024-01-01T00:00:05Z'')" by simp
  from get_status_fresh [OF h1 h2 h3 h4 h5 h6 h7, of example_client "JStr ''job-1''"]
  show ?thesis by simp
qed

text \<open>
  \<^bold>\<open>C9\<close>. For every \<^verbatim>\<open>base_url\<close> the constructor stores it without its trailing
  slashes: nothing but slashes is removed, and what is stored does not end in a slash.
  So in every endpoint URL exactly one slash stands between the stored base and
  \<^verbatim>\<open>api/...\<close>.
\<close>

theorem init_base_url:
  "base_url (init b k) = rstrip CHR ''/'' b
   \<and> (\<exists>n. b = base_url (init b k) @ replicate n CHR ''/'')
   \<and> (base_url (init b k) = [] \<or> last (base_url (init b k)) \<noteq> CHR ''/'')
   \<and> start_url (init b k) = base_url (init b k) @ ''/'' @ ''api/scrape/start''
   \<and> status_url (init b k) w jid
       = base_url (init b k) @ ''/'' @ ''api/scrape/status/'' @ py_str (repr_of w) jid
   \<and> results_url (init b k) w jid
       = base_url (init b k) @ ''/'' @ ''api/scrape/results/'' @ py_str (repr_of w) jid
   \<and> cancel_url (init b k) w jid
       = base_url (init b k) @ ''/'' @ ''api/scrape/cancel/'' @ py_str (repr_of w) jid"
proof -
  have "base_url (init b k) = rstrip CHR ''/'' b" by (simp add: init_def)
  with rstrip_no_trailing [of "CHR ''/''" b] rstrip_only_trailing [of b "CHR ''/''"]
  show ?thesis
    by (simp add: start_url_def status_url_def results_url_def cancel_url_def)
qed

theorem init_base_url_witness:
  "base_url (init ''https://apartment-scraper.workers.dev///'' None)
     = ''https://apartment-scraper.workers.dev''
   \<and> start_url (init ''https://apartment-scraper.workers.dev///'' None)
     = ''https://apartment-scraper.workers.dev/api/scrape/start''
   \<and> status_url (init ''https://apartment-scraper.workers.dev///'' None) (scripted [] []) (JStr ''job-1'')
     = ''https://apartment-scraper.workers.dev/api/scrape/status/job-1''
   \<and> start_url (init ''https://apartment-scraper.workers.dev'' None)
     = ''https://apartment-scraper.workers.dev/api/scrape/start''"
  using init_base_url [of "''https://apartment-scraper.workers.dev///''" None "scripted [] []" "JStr ''job-1''"]
    init_base_url [of "''https://apartment-scraper.workers.dev''" None "scripted [] []" "JStr ''job-1''"]
  by (simp add: rstrip_def)

text \<open>
  \<^bold>\<open>C10\<close>. For every ScrapeRequest whose filters mapping is empty,
  \<^verbatim>\<open>start_scrape\<close> leaves the key \<^verbatim>\<open>filters\<close> out of the body and does exactly
  what it does for the same request with no filters at all.
\<close>

theorem start_scrape_empty_filters:
  assumes "filters request = Some []"
  shows "start_payload request
           = [(''city'', JStr (city request)), (''state'', JStr (state request)),
              (''maxPages'', JInt (max_pages request))]
       \<and> ''filters'' \<notin> set (map fst (start_payload request))
       \<and> start_payload request = start_payload (request\<lparr>filters := None\<rparr>)
       \<and> start_scrape self w request = start_scrape self w (request\<lparr>filters := None\<rparr>)"
  using assms by (simp add: start_payload_def start_scrape_def)

theorem start_scrape_empty_filters_witness:
  "filters example_request = Some []
   \<and> start_payload example_request
       = [(''city'', JStr ''atlanta''), (''state'', JStr ''ga''), (''maxPages'', JInt 5)]
   \<and> start_scrape example_client (scripted [] []) example_request
       = start_scrape example_client (scripted [] []) (example_request\<lparr>filters := None\<rparr>)"
proof -
  have h: "filters example_request = Some []" by (simp add: example_request_def)
  from start_scrape_empty_filters [OF h, of example_client "scripted [] []"] h
  show ?thesis by (simp add: example_request_def)
qed

end
